theory Spec2Isabelle
  imports Main "HOL-Library.AList"
begin

section \<open>Responses\<close>

text \<open>
  Every handler answers through \<^verbatim>\<open>sendSuccess(res, data, status?, message?)\<close> or
  \<^verbatim>\<open>sendError(res, message, status, errors?)\<close>. A response is modelled as the call the
  handler makes, with the arguments it passes; an argument the handler leaves out is
  \<open>None\<close>.
\<close>

record field_error =
  field :: string
  message :: string

datatype 'd response =
    SendSuccess 'd "nat option" "string option"
  | SendError string nat "field_error list option"

fun status_of :: "'d response \<Rightarrow> nat option" where
  "status_of (SendSuccess d st m) = st"
| "status_of (SendError m st es) = Some st"

section \<open>Guides: request bodies and stored guides as JavaScript objects\<close>

text \<open>
  The guide handlers read \<^verbatim>\<open>req.body\<close> as parsed JSON and build guides with object
  spread, so a guide and a body are objects: association lists from property names to
  values, in insertion order. Numbers are the integers (the handlers only test a number
  for being zero); \<open>JDate\<close> is a \<^verbatim>\<open>Date\<close>, as a number of milliseconds.
\<close>

datatype jsval =
    JUndefined
  | JNull
  | JBool bool
  | JNum int
  | JStr string
  | JDate nat
  | JArr "jsval list"
  | JObj "(string \<times> jsval) list"

type_synonym jsobject = "(string \<times> jsval) list"

text \<open>\<^verbatim>\<open>!v\<close> is true exactly for the falsy values.\<close>

fun truthy :: "jsval \<Rightarrow> bool" where
  "truthy JUndefined = False"
| "truthy JNull = False"
| "truthy (JBool b) = b"
| "truthy (JNum n) = (n \<noteq> 0)"
| "truthy (JStr s) = (s \<noteq> [])"
| "truthy (JDate t) = True"
| "truthy (JArr xs) = True"
| "truthy (JObj al) = True"

text \<open>\<^verbatim>\<open>obj.k\<close>: the value of the property, \<^verbatim>\<open>undefined\<close> when the object has none.\<close>

definition get_prop :: "jsobject \<Rightarrow> string \<Rightarrow> jsval" where
  "get_prop obj k = (case map_of obj k of None \<Rightarrow> JUndefined | Some v \<Rightarrow> v)"

text \<open>
  \<^verbatim>\<open>v?.k\<close>: \<^verbatim>\<open>undefined\<close> when \<open>v\<close> is \<^verbatim>\<open>null\<close> or \<^verbatim>\<open>undefined\<close>, the property
  otherwise. The properties read this way (\<^verbatim>\<open>fullDay\<close>) are defined on objects only.
\<close>

fun opt_chain :: "jsval \<Rightarrow> string \<Rightarrow> jsval" where
  "opt_chain (JObj al) k = get_prop al k"
| "opt_chain v k = JUndefined"

text \<open>\<^verbatim>\<open>{...obj, k: v}\<close>: an existing property keeps its place, a new one goes last.\<close>

definition set_prop :: "string \<Rightarrow> jsval \<Rightarrow> jsobject \<Rightarrow> jsobject" where
  "set_prop k v obj = AList.update k v obj"

text \<open>
  \<^verbatim>\<open>{...target, ...source}\<close>: the properties of \<open>source\<close> are set one after another.
  Property names that read as array indices, which JavaScript enumerates before the
  others, are not told apart: for an object with such a name the order of the
  properties may differ, their values do not.
\<close>

definition spread :: "jsobject \<Rightarrow> jsobject \<Rightarrow> jsobject" where
  "spread target source = fold (\<lambda>(k, v). set_prop k v) source target"

text \<open>\<^verbatim>\<open>xs.findIndex(p)\<close>; JavaScript's \<^verbatim>\<open>-1\<close> is \<open>None\<close>.\<close>

fun findIndex :: "('a \<Rightarrow> bool) \<Rightarrow> 'a list \<Rightarrow> nat option" where
  "findIndex p [] = None"
| "findIndex p (x # xs) = (if p x then Some 0 else map_option Suc (findIndex p xs))"

subsection \<open>createGuide\<close>

text \<open>
  \<^verbatim>\<open>createGuide\<close> of guides.controller.ts. The identifier that \<^verbatim>\<open>generateId()\<close> returns
  and the time \<^verbatim>\<open>new Date()\<close> are parameters; the store \<^verbatim>\<open>guidesStore\<close> is passed in
  and returned.
\<close>

definition createGuide_errors :: "jsobject \<Rightarrow> field_error list" where
  "createGuide_errors input =
     (let errors = [];
          errors = (if \<not> truthy (get_prop input ''name'')
                    then errors @ [\<lparr>field = ''name'', message = ''Name is required''\<rparr>]
                    else errors);
          errors = (if \<not> truthy (get_prop input ''bio'')
                    then errors @ [\<lparr>field = ''bio'', message = ''Bio is required''\<rparr>]
                    else errors);
          errors = (if \<not> truthy (opt_chain (get_prop input ''pricing'') ''fullDay'')
                    then errors @ [\<lparr>field = ''pricing.fullDay'',
                                    message = ''Full day pricing is required''\<rparr>]
                    else errors)
      in errors)"

definition createGuide ::
  "string \<Rightarrow> nat \<Rightarrow> jsobject list \<Rightarrow> jsobject \<Rightarrow> jsobject list \<times> jsval response" where
  "createGuide generateId now guidesStore input =
     (let errors = createGuide_errors input in
      if length errors > 0
      then (guidesStore, SendError ''Validation failed'' 400 (Some errors))
      else
        let newGuide =
              set_prop ''updatedAt'' (JDate now)
                (set_prop ''createdAt'' (JDate now)
                  (spread [(''_id'', JStr generateId)] input))
        in (guidesStore @ [newGuide],
            SendSuccess (JObj newGuide) (Some 201)
              (Some ''Guide profile created successfully'')))"

subsection \<open>updateGuide\<close>

definition updateGuide ::
  "nat \<Rightarrow> jsobject list \<Rightarrow> string \<Rightarrow> jsobject \<Rightarrow> jsobject list \<times> jsval response" where
  "updateGuide now guidesStore id' updates =
     (case findIndex (\<lambda>g. get_prop g ''_id'' = JStr id') guidesStore of
        None \<Rightarrow> (guidesStore, SendError ''Guide not found'' 404 None)
      | Some index \<Rightarrow>
          let updatedGuide =
                set_prop ''updatedAt'' (JDate now)
                  (set_prop ''createdAt'' (get_prop (guidesStore ! index) ''createdAt'')
                    (set_prop ''_id'' (get_prop (guidesStore ! index) ''_id'')
                      (spread (spread [] (guidesStore ! index)) updates)))
          in (guidesStore[index := updatedGuide],
              SendSuccess (JObj updatedGuide) (Some 200)
                (Some ''Guide profile updated successfully'')))"

section \<open>Authentication: the collaborators of the handlers\<close>

text \<open>
  A value thrown inside a handler, as far as the \<^verbatim>\<open>catch\<close> blocks look at it:
  \<^verbatim>\<open>error instanceof Error\<close>, \<^verbatim>\<open>error.name\<close>, \<^verbatim>\<open>error.code\<close> (\<open>None\<close> when
  \<^verbatim>\<open>'code' in error\<close> is false) and the \<^verbatim>\<open>errors\<close> of a Mongoose validation error, from
  field names to messages.
\<close>

record js_error =
  instanceofError :: bool
  err_name :: string
  err_code :: "int option"
  err_errors :: "(string \<times> string) list"

text \<open>
  A user document (\<^verbatim>\<open>IUserDocument\<close>). \<open>password\<close> is \<open>None\<close> when the query left the
  field out (it is \<^verbatim>\<open>select: false\<close>); \<open>isNew\<close> and \<open>password_modified\<close> are what
  Mongoose tracks between loading a document and saving it. Times are numbers of
  milliseconds.
\<close>

record user_document =
  u_id :: string
  email :: string
  password :: "string option"
  name :: string
  role :: string
  isActive :: bool
  lastLogin :: "nat option"
  createdAt :: nat
  updatedAt :: nat
  isNew :: bool
  password_modified :: bool

text \<open>
  The functions the handlers call and this repository's sources do not show are
  parameters: the password hasher (\<open>hash\<close>, and \<open>compare candidate stored\<close> for
  \<^verbatim>\<open>bcrypt.compare\<close>), the token issuer (\<open>generateToken userId role\<close> and its inverse
  \<open>verifyToken\<close>) and the schema validation of a new document (\<open>validate\<close>, the list
  of field errors, empty when the document is accepted). The token type is left open, and
  issuing a token does not throw.
\<close>

record 'tok collaborators =
  hash :: "string \<Rightarrow> string"
  compare :: "string \<Rightarrow> string \<Rightarrow> bool"
  generateToken :: "string \<Rightarrow> string \<Rightarrow> 'tok"
  verifyToken :: "'tok \<Rightarrow> (string \<times> string) option"
  validate :: "user_document \<Rightarrow> (string \<times> string) list"

text \<open>
  What one request meets: the time \<^verbatim>\<open>new Date()\<close> returns, the identifier a new
  document gets, a failure of the store's queries (\<open>findFault\<close>) or of
  \<^verbatim>\<open>save()\<close> (\<open>saveFault\<close>), each the value thrown, and the documents other requests
  insert between the pre-check query of \<^verbatim>\<open>register\<close> and its insert (\<open>racing\<close>).
\<close>

record request_ctx =
  now :: nat
  newId :: string
  findFault :: "js_error option"
  saveFault :: "js_error option"
  racing :: "user_document list"

definition duplicateKeyError :: js_error where
  "duplicateKeyError =
     \<lparr>instanceofError = True, err_name = ''MongoServerError'',
      err_code = Some 11000, err_errors = []\<rparr>"

definition validationError :: "(string \<times> string) list \<Rightarrow> js_error" where
  "validationError errs =
     \<lparr>instanceofError = True, err_name = ''ValidationError'',
      err_code = None, err_errors = errs\<rparr>"

definition documentNotFoundError :: js_error where
  "documentNotFoundError =
     \<lparr>instanceofError = True, err_name = ''DocumentNotFoundError'',
      err_code = None, err_errors = []\<rparr>"

definition missingHashError :: js_error where
  "missingHashError =
     \<lparr>instanceofError = True, err_name = ''Error'',
      err_code = None, err_errors = []\<rparr>"

subsection \<open>The credential store\<close>

text \<open>
  Modelled from the spec: the model layer \<^verbatim>\<open>models/users/User.model\<close> (\<^verbatim>\<open>UserModel\<close>,
  its queries, \<^verbatim>\<open>save\<close> with the hashing hook, \<^verbatim>\<open>comparePassword\<close>,
  \<^verbatim>\<open>toUserResponse\<close>) is not among the sources. The collection is the list of stored
  documents. A query compares the email or the identifier by string equality and returns
  the first match, with the password hash only where the caller asks for it.
  \<^verbatim>\<open>UserModel.findOne({email})\<close> is the lookup by email without the hash.
\<close>

definition findOne ::
  "request_ctx \<Rightarrow> user_document list \<Rightarrow> string \<Rightarrow> js_error + user_document option" where
  "findOne ctx users e =
     (case findFault ctx of
        Some err \<Rightarrow> Inl err
      | None \<Rightarrow> Inr (map_option (\<lambda>u. u\<lparr>password := None\<rparr>) (find (\<lambda>u. email u = e) users)))"

text \<open>
  Modelled from the spec: \<^verbatim>\<open>UserModel.findByEmail(email)\<close>, the lookup by email with
  the password hash included.
\<close>

definition findByEmail ::
  "request_ctx \<Rightarrow> user_document list \<Rightarrow> string \<Rightarrow> js_error + user_document option" where
  "findByEmail ctx users e =
     (case findFault ctx of
        Some err \<Rightarrow> Inl err
      | None \<Rightarrow> Inr (find (\<lambda>u. email u = e) users))"

text \<open>
  Modelled from the spec: \<^verbatim>\<open>UserModel.findById(userId)\<close>, with
  \<^verbatim>\<open>.select('+password')\<close> when \<open>includePassword\<close> is set.
\<close>

definition findById ::
  "request_ctx \<Rightarrow> user_document list \<Rightarrow> string \<Rightarrow> bool \<Rightarrow> js_error + user_document option" where
  "findById ctx users i includePassword =
     (case findFault ctx of
        Some err \<Rightarrow> Inl err
      | None \<Rightarrow>
          Inr (map_option (\<lambda>u. if includePassword then u else u\<lparr>password := None\<rparr>)
                 (find (\<lambda>u. u_id u = i) users)))"

text \<open>
  Modelled from the spec: \<^verbatim>\<open>new UserModel({email, password, name, role})\<close>. The active
  flag defaults to true and the last login is empty until the first login.
\<close>

definition newUserModel ::
  "request_ctx \<Rightarrow> string \<Rightarrow> string \<Rightarrow> string \<Rightarrow> string \<Rightarrow> user_document" where
  "newUserModel ctx e p n r =
     \<lparr>u_id = newId ctx, email = e, password = Some p, name = n, role = r,
      isActive = True, lastLogin = None, createdAt = now ctx, updatedAt = now ctx,
      isNew = True, password_modified = True\<rparr>"

text \<open>
  Modelled from the spec: \<^verbatim>\<open>user.save()\<close>. A new document is validated against
  the schema, the hook replaces its password by the hash, and it is inserted, unless a
  stored document has its email (the uniqueness constraint of the store: duplicate-key
  error 11000). A loaded document is written back to the stored document of its
  identifier: the fields the handlers assign (name, last login, and the password, hashed
  by the hook, when it was set since loading). Any other failure of a save, on an insert
  or on a write, is \<open>saveFault\<close>. A save that throws leaves the collection as it was.
\<close>

definition save ::
  "'tok collaborators \<Rightarrow> request_ctx \<Rightarrow> user_document list \<Rightarrow> user_document
     \<Rightarrow> js_error + (user_document list \<times> user_document)" where
  "save env ctx users doc =
     (case saveFault ctx of
        Some err \<Rightarrow> Inl err
      | None \<Rightarrow>
          let hashed = (if password_modified doc
                        then doc\<lparr>password := map_option (hash env) (password doc)\<rparr>
                        else doc) in
          if isNew doc then
            (if validate env doc \<noteq> [] then Inl (validationError (validate env doc))
             else if \<exists>u \<in> set users. email u = email doc then Inl duplicateKeyError
             else
               let saved = hashed\<lparr>createdAt := now ctx, updatedAt := now ctx,
                                   isNew := False, password_modified := False\<rparr>
               in Inr (users @ [saved], saved))
          else
            (case findIndex (\<lambda>u. u_id u = u_id doc) users of
               None \<Rightarrow> Inl documentNotFoundError
             | Some i \<Rightarrow>
                 let saved = hashed\<lparr>updatedAt := now ctx, password_modified := False\<rparr>;
                     stored = (users ! i)
                       \<lparr>name := name saved, lastLogin := lastLogin saved,
                        password := (if password_modified doc then password saved
                                     else password (users ! i)),
                        updatedAt := now ctx\<rparr>
                 in Inr (users[i := stored], saved)))"

text \<open>
  Modelled from the spec: \<^verbatim>\<open>user.comparePassword(candidate)\<close> verifies the candidate
  against the hash of the document; without a hash in the document the comparison throws.
\<close>

definition comparePassword ::
  "'tok collaborators \<Rightarrow> user_document \<Rightarrow> string \<Rightarrow> js_error + bool" where
  "comparePassword env user candidate =
     (case password user of
        None \<Rightarrow> Inl missingHashError
      | Some h \<Rightarrow> Inr (compare env candidate h))"

text \<open>
  Modelled from the spec: \<^verbatim>\<open>toUserResponse(user)\<close>, the sanitized representation
  \<^verbatim>\<open>{id, email, name, role, isActive, createdAt, lastLogin}\<close>, without the password.
\<close>

record user_response =
  r_id :: string
  r_email :: string
  r_name :: string
  r_role :: string
  r_isActive :: bool
  r_createdAt :: nat
  r_lastLogin :: "nat option"

definition toUserResponse :: "user_document \<Rightarrow> user_response" where
  "toUserResponse user =
     \<lparr>r_id = u_id user, r_email = email user, r_name = name user, r_role = role user,
      r_isActive = isActive user, r_createdAt = createdAt user,
      r_lastLogin = lastLogin user\<rparr>"

section \<open>Authentication: the handlers of auth.controller.ts\<close>

text \<open>The \<open>data\<close> of a success: \<^verbatim>\<open>{user, token}\<close> or the sanitized user alone.\<close>

datatype 'tok auth_data =
    UserAndToken user_response 'tok
  | UserOnly user_response

type_synonym 'tok auth_response = "'tok auth_data response"

text \<open>Request bodies, as the validation middleware lets them through.\<close>

record RegisterDTO =
  reg_email :: string
  reg_password :: string
  reg_name :: string
  reg_role :: "string option"

record LoginDTO =
  login_email :: string
  login_password :: string

record UpdateProfileBody =
  upd_name :: "string option"
  currentPassword :: "string option"
  newPassword :: "string option"

subsection \<open>getAuthenticatedUser\<close>

text \<open>
  \<open>Inl\<close>: the query threw. \<open>Inr (Inl r)\<close>: the helper sent the error response \<open>r\<close> and
  returned \<^verbatim>\<open>null\<close>. \<open>Inr (Inr u)\<close>: the user. \<open>userId\<close> is \<^verbatim>\<open>req.user?.userId\<close>.
\<close>

definition getAuthenticatedUser ::
  "request_ctx \<Rightarrow> user_document list \<Rightarrow> string option \<Rightarrow> bool
     \<Rightarrow> js_error + ('tok auth_response + user_document)" where
  "getAuthenticatedUser ctx users userId includePassword =
     (case userId of
        None \<Rightarrow> Inr (Inl (SendError ''User not found in request'' 401 None))
      | Some i \<Rightarrow>
          if i = [] then Inr (Inl (SendError ''User not found in request'' 401 None))
          else
            (case findById ctx users i includePassword of
               Inl err \<Rightarrow> Inl err
             | Inr None \<Rightarrow> Inr (Inl (SendError ''User not found'' 404 None))
             | Inr (Some user) \<Rightarrow> Inr (Inr user)))"

subsection \<open>register\<close>

text \<open>The \<^verbatim>\<open>catch\<close> block of \<^verbatim>\<open>register\<close>.\<close>

definition register_catch :: "js_error \<Rightarrow> 'tok auth_response" where
  "register_catch error =
     (if instanceofError error \<and> err_name error = ''ValidationError''
      then SendError ''Validation failed'' 400
             (Some (map (\<lambda>(f, m). \<lparr>field = f, message = m\<rparr>) (err_errors error)))
      else if instanceofError error \<and> err_code error \<noteq> None \<and> err_code error = Some 11000
      then SendError ''Email already registered'' 409 None
      else SendError ''Registration failed'' 500 None)"

text \<open>
  \<open>users\<close> is the collection when the pre-check query runs; the insert runs on
  \<open>users @ racing ctx\<close>. The result is the collection when the handler returns, and
  the response.
  \<open>register_user\<close> is the document \<^verbatim>\<open>new UserModel({..., role: role || 'customer'})\<close>.
\<close>

definition register_user :: "request_ctx \<Rightarrow> RegisterDTO \<Rightarrow> user_document" where
  "register_user ctx body =
     newUserModel ctx (reg_email body) (reg_password body) (reg_name body)
       (case reg_role body of
          None \<Rightarrow> ''customer''
        | Some r \<Rightarrow> if r = [] then ''customer'' else r)"

definition register ::
  "'tok collaborators \<Rightarrow> request_ctx \<Rightarrow> user_document list \<Rightarrow> RegisterDTO
     \<Rightarrow> user_document list \<times> 'tok auth_response" where
  "register env ctx users body =
     (case findOne ctx users (reg_email body) of
        Inl err \<Rightarrow> (users, register_catch err)
      | Inr (Some existingUser) \<Rightarrow> (users, SendError ''Email already registered'' 409 None)
      | Inr None \<Rightarrow>
          let user = register_user ctx body
          in (case save env ctx (users @ racing ctx) user of
                Inl err \<Rightarrow> (users @ racing ctx, register_catch err)
              | Inr (users', user') \<Rightarrow>
                  (users',
                   SendSuccess
                     (UserAndToken (toUserResponse user')
                        (generateToken env (u_id user') (role user')))
                     (Some 201) (Some ''Registration successful''))))"

subsection \<open>login\<close>

definition login ::
  "'tok collaborators \<Rightarrow> request_ctx \<Rightarrow> user_document list \<Rightarrow> LoginDTO
     \<Rightarrow> user_document list \<times> 'tok auth_response" where
  "login env ctx users body =
     (case findByEmail ctx users (login_email body) of
        Inl err \<Rightarrow> (users, SendError ''Login failed'' 500 None)
      | Inr None \<Rightarrow> (users, SendError ''Invalid credentials'' 401 None)
      | Inr (Some user) \<Rightarrow>
          if \<not> isActive user
          then (users, SendError ''Account is deactivated'' 403 None)
          else
            (case comparePassword env user (login_password body) of
               Inl err \<Rightarrow> (users, SendError ''Login failed'' 500 None)
             | Inr isMatch \<Rightarrow>
                 if \<not> isMatch
                 then (users, SendError ''Invalid credentials'' 401 None)
                 else
                   (case save env ctx users (user\<lparr>lastLogin := Some (now ctx)\<rparr>) of
                      Inl err \<Rightarrow> (users, SendError ''Login failed'' 500 None)
                    | Inr (users', user') \<Rightarrow>
                        (users',
                         SendSuccess
                           (UserAndToken (toUserResponse user')
                              (generateToken env (u_id user') (role user')))
                           (Some 200) (Some ''Login successful'')))))"

subsection \<open>getProfile\<close>

definition getProfile ::
  "request_ctx \<Rightarrow> user_document list \<Rightarrow> string option \<Rightarrow> 'tok auth_response" where
  "getProfile ctx users userId =
     (case getAuthenticatedUser ctx users userId False of
        Inl err \<Rightarrow> SendError ''Failed to get profile'' 500 None
      | Inr (Inl sent) \<Rightarrow> sent
      | Inr (Inr user) \<Rightarrow>
          if \<not> isActive user
          then SendError ''Account is deactivated'' 403 None
          else SendSuccess (UserOnly (toUserResponse user)) None None)"

subsection \<open>updateProfile\<close>

text \<open>The end of \<^verbatim>\<open>updateProfile\<close>: \<^verbatim>\<open>await user.save()\<close> and the success response.\<close>

definition updateProfile_save ::
  "'tok collaborators \<Rightarrow> request_ctx \<Rightarrow> user_document list \<Rightarrow> user_document
     \<Rightarrow> user_document list \<times> 'tok auth_response" where
  "updateProfile_save env ctx users user =
     (case save env ctx users user of
        Inl err \<Rightarrow> (users, SendError ''Failed to update profile'' 500 None)
      | Inr (users', user') \<Rightarrow>
          (users',
           SendSuccess (UserOnly (toUserResponse user')) (Some 200)
             (Some ''Profile updated successfully'')))"

text \<open>
  \<^verbatim>\<open>if (x)\<close> on an optional string: present and not empty. The current password is
  read (\<open>the\<close>) only where this test has found it present.
\<close>

fun truthy_str :: "string option \<Rightarrow> bool" where
  "truthy_str None = False"
| "truthy_str (Some s) = (s \<noteq> [])"

definition updateProfile ::
  "'tok collaborators \<Rightarrow> request_ctx \<Rightarrow> user_document list \<Rightarrow> string option
     \<Rightarrow> UpdateProfileBody \<Rightarrow> user_document list \<times> 'tok auth_response" where
  "updateProfile env ctx users userId body =
     (case getAuthenticatedUser ctx users userId True of
        Inl err \<Rightarrow> (users, SendError ''Failed to update profile'' 500 None)
      | Inr (Inl sent) \<Rightarrow> (users, sent)
      | Inr (Inr loaded) \<Rightarrow>
          let user = (case upd_name body of
                        None \<Rightarrow> loaded
                      | Some n \<Rightarrow> if n = [] then loaded else loaded\<lparr>name := n\<rparr>)
          in
            if truthy_str (newPassword body) \<and> truthy_str (currentPassword body)
            then
              (case comparePassword env user (the (currentPassword body)) of
                 Inl err \<Rightarrow> (users, SendError ''Failed to update profile'' 500 None)
               | Inr isMatch \<Rightarrow>
                   if \<not> isMatch
                   then (users, SendError ''Current password is incorrect'' 400 None)
                   else updateProfile_save env ctx users
                          (user\<lparr>password := newPassword body, password_modified := True\<rparr>))
            else updateProfile_save env ctx users user)"

subsection \<open>Well-formed collections\<close>

text \<open>
  A stored collection: identifiers and emails are unique, identifiers are not empty,
  every document has its hash and is neither new nor modified.
\<close>

definition wf_users :: "user_document list \<Rightarrow> bool" where
  "wf_users users \<longleftrightarrow>
     distinct (map u_id users) \<and> distinct (map email users) \<and>
     list_all (\<lambda>u. u_id u \<noteq> [] \<and> password u \<noteq> None \<and> \<not> isNew u \<and> \<not> password_modified u)
       users"

subsection \<open>The document a registration stores\<close>

text \<open>
  What \<^verbatim>\<open>register\<close> leaves in the collection for a body: the new document with the
  hash in place of the password.
\<close>

definition registered_user ::
  "'tok collaborators \<Rightarrow> request_ctx \<Rightarrow> RegisterDTO \<Rightarrow> user_document" where
  "registered_user env ctx body =
     (register_user ctx body)
       \<lparr>password := Some (hash env (reg_password body)),
        isNew := False, password_modified := False\<rparr>"

section \<open>Example values\<close>

text \<open>
  A hasher, a token issuer and a schema to run the handlers on, and two stored users,
  the second one deactivated.
\<close>

definition demo_env :: "(string \<times> string) collaborators" where
  "demo_env =
     \<lparr>hash = (\<lambda>p. ''hash:'' @ p),
      compare = (\<lambda>candidate stored. stored = ''hash:'' @ candidate),
      generateToken = (\<lambda>userId r. (userId, r)),
      verifyToken = Some,
      validate = (\<lambda>doc. [])\<rparr>"

definition demo_ctx :: request_ctx where
  "demo_ctx =
     \<lparr>now = 1700000000000, newId = ''u9'', findFault = None, saveFault = None,
      racing = []\<rparr>"

definition alice :: user_document where
  "alice =
     \<lparr>u_id = ''u1'', email = ''a@b.com'', password = Some ''hash:Passw0rd!'',
      name = ''A'', role = ''customer'', isActive = True, lastLogin = None,
      createdAt = 1600000000000, updatedAt = 1600000000000,
      isNew = False, password_modified = False\<rparr>"

definition bob :: user_document where
  "bob =
     \<lparr>u_id = ''u2'', email = ''bob@b.com'', password = Some ''hash:hunter22'',
      name = ''Bob'', role = ''customer'', isActive = False, lastLogin = None,
      createdAt = 1600000000001, updatedAt = 1600000000001,
      isNew = False, password_modified = False\<rparr>"

text \<open>A request during which the store cannot be written: \<^verbatim>\<open>save()\<close> throws.\<close>

definition networkError :: js_error where
  "networkError =
     \<lparr>instanceofError = True, err_name = ''MongoNetworkError'',
      err_code = None, err_errors = []\<rparr>"

definition failing_save_ctx :: request_ctx where
  "failing_save_ctx =
     \<lparr>now = 1700000000000, newId = ''u9'', findFault = None,
      saveFault = Some networkError, racing = []\<rparr>"

section \<open>Properties of the guide handlers\<close>

lemma get_set_prop_same: "get_prop (set_prop k v obj) k = v"
  by (simp add: get_prop_def set_prop_def update_conv')

lemma get_set_prop_other: "k' \<noteq> k \<Longrightarrow> get_prop (set_prop k v obj) k' = get_prop obj k'"
  by (simp add: get_prop_def set_prop_def update_conv')

lemma findIndex_Some: "findIndex p xs = Some i \<Longrightarrow> i < length xs \<and> p (xs ! i)"
proof (induction xs arbitrary: i)
  case Nil
  then show ?case by simp
next
  case (Cons x xs)
  show ?case
  proof (cases "p x")
    case True
    with Cons.prems show ?thesis by simp
  next
    case False
    with Cons.prems obtain j where j: "findIndex p xs = Some j" "i = Suc j"
      by auto
    with Cons.IH [of j] show ?thesis by simp
  qed
qed

lemma findIndex_None: "findIndex p xs = None \<longleftrightarrow> (\<forall>x \<in> set xs. \<not> p x)"
  by (induction xs) auto


text \<open>
  C10: a \<^verbatim>\<open>createGuide\<close> request with name and bio present whose \<^verbatim>\<open>pricing.fullDay\<close>
  is 0 is answered like one whose full-day rate is absent: status 400, the single field
  error for \<^verbatim>\<open>pricing.fullDay\<close>, and the store is left as it was.
\<close>

theorem C10_createGuide_zero_fullDay:
  assumes "truthy (get_prop input ''name'')"
    and "truthy (get_prop input ''bio'')"
    and "opt_chain (get_prop input ''pricing'') ''fullDay'' = JNum 0
         \<or> opt_chain (get_prop input ''pricing'') ''fullDay'' = JUndefined"
  shows "createGuide generateId t guidesStore input =
           (guidesStore,
            SendError ''Validation failed'' 400
              (Some [\<lparr>field = ''pricing.fullDay'',
                      message = ''Full day pricing is required''\<rparr>]))"
  using assms by (auto simp add: createGuide_def createGuide_errors_def)

theorem C10_createGuide_zero_fullDay_witness:
  "createGuide ''g1'' 1700000000000 []
     [(''name'', JStr ''Asha''), (''bio'', JStr ''Forest guide''),
      (''pricing'', JObj [(''halfDay'', JNum 800), (''fullDay'', JNum 0)])] =
     ([], SendError ''Validation failed'' 400
            (Some [\<lparr>field = ''pricing.fullDay'',
                    message = ''Full day pricing is required''\<rparr>]))"
  using C10_createGuide_zero_fullDay
    [of "[(''name'', JStr ''Asha''), (''bio'', JStr ''Forest guide''),
          (''pricing'', JObj [(''halfDay'', JNum 800), (''fullDay'', JNum 0)])]"
        "''g1''" 1700000000000 "[]"]
  by (simp add: get_prop_def)

text \<open>
  C8, as the code has it: \<^verbatim>\<open>createGuide\<close> checks the name, the bio and the full-day
  rate, and nothing else. A request without a full-day rate (absent or zero) gets status
  400 with the field errors, among them the one for \<^verbatim>\<open>pricing.fullDay\<close>, and no
  guide is added. A request with name, bio and a full-day rate is accepted with status
  201 and one guide appended, whatever its half-day rate.
\<close>

theorem C8_createGuide_checks_fullDay_only:
  "(\<not> truthy (opt_chain (get_prop input ''pricing'') ''fullDay'') \<longrightarrow>
      createGuide generateId t guidesStore input =
        (guidesStore,
         SendError ''Validation failed'' 400 (Some (createGuide_errors input))) \<and>
      \<lparr>field = ''pricing.fullDay'', message = ''Full day pricing is required''\<rparr>
        \<in> set (createGuide_errors input)) \<and>
   (truthy (get_prop input ''name'') \<and> truthy (get_prop input ''bio'') \<and>
    truthy (opt_chain (get_prop input ''pricing'') ''fullDay'') \<longrightarrow>
      (\<exists>newGuide.
         createGuide generateId t guidesStore input =
           (guidesStore @ [newGuide],
            SendSuccess (JObj newGuide) (Some 201)
              (Some ''Guide profile created successfully''))))"
  by (simp add: createGuide_def createGuide_errors_def Let_def)

theorem C8_createGuide_checks_fullDay_only_witness:
  "createGuide ''g1'' 5 [] [(''name'', JStr ''Asha''), (''bio'', JStr ''Forest guide'')] =
     ([], SendError ''Validation failed'' 400
            (Some [\<lparr>field = ''pricing.fullDay'',
                    message = ''Full day pricing is required''\<rparr>])) \<and>
   (\<exists>newGuide.
      createGuide ''g1'' 5 []
        [(''name'', JStr ''Asha''), (''bio'', JStr ''Forest guide''),
         (''pricing'', JObj [(''fullDay'', JNum 1500)])] =
        ([] @ [newGuide],
         SendSuccess (JObj newGuide) (Some 201)
           (Some ''Guide profile created successfully'')))"
  using C8_createGuide_checks_fullDay_only
    [of "[(''name'', JStr ''Asha''), (''bio'', JStr ''Forest guide'')]" "''g1''" 5 "[]"]
    C8_createGuide_checks_fullDay_only
    [of "[(''name'', JStr ''Asha''), (''bio'', JStr ''Forest guide''),
          (''pricing'', JObj [(''fullDay'', JNum 1500)])]" "''g1''" 5 "[]"]
  by (simp add: get_prop_def createGuide_errors_def)

text \<open>
  C8, as the claim has it, fails: a request whose pricing has a full-day rate and no
  half-day rate is accepted with status 201 and stored.
\<close>

theorem C8_createGuide_missing_halfDay_accepted:
  "get_prop [(''fullDay'', JNum 1500)] ''halfDay'' = JUndefined \<and>
   createGuide ''g1'' 5 []
     [(''name'', JStr ''Asha''), (''bio'', JStr ''Forest guide''),
      (''pricing'', JObj [(''fullDay'', JNum 1500)])] =
     ([[(''_id'', JStr ''g1''), (''name'', JStr ''Asha''), (''bio'', JStr ''Forest guide''),
        (''pricing'', JObj [(''fullDay'', JNum 1500)]),
        (''createdAt'', JDate 5), (''updatedAt'', JDate 5)]],
      SendSuccess
        (JObj [(''_id'', JStr ''g1''), (''name'', JStr ''Asha''),
               (''bio'', JStr ''Forest guide''),
               (''pricing'', JObj [(''fullDay'', JNum 1500)]),
               (''createdAt'', JDate 5), (''updatedAt'', JDate 5)])
        (Some 201) (Some ''Guide profile created successfully''))"
  by (simp add: createGuide_def createGuide_errors_def get_prop_def spread_def set_prop_def
      Let_def)

text \<open>
  C9: after a successful \<^verbatim>\<open>updateGuide\<close>, whatever the payload holds (also an
  \<^verbatim>\<open>_id\<close> or a \<^verbatim>\<open>createdAt\<close> of its own), every guide of the store has the
  \<^verbatim>\<open>_id\<close> and the \<^verbatim>\<open>createdAt\<close> it had before. The store keeps its length, the
  guide found by the identifier is the one the response returns, its \<^verbatim>\<open>updatedAt\<close>
  is the time of the update, and every other guide is untouched.
\<close>

theorem C9_updateGuide_keeps_id_createdAt:
  assumes "updateGuide t guidesStore i updates = (store', SendSuccess d st m)"
  shows "length store' = length guidesStore \<and>
         (\<forall>j < length guidesStore.
            get_prop (store' ! j) ''_id'' = get_prop (guidesStore ! j) ''_id'' \<and>
            get_prop (store' ! j) ''createdAt'' = get_prop (guidesStore ! j) ''createdAt'') \<and>
         (\<exists>index < length guidesStore.
            findIndex (\<lambda>g. get_prop g ''_id'' = JStr i) guidesStore = Some index \<and>
            d = JObj (store' ! index) \<and>
            get_prop (store' ! index) ''updatedAt'' = JDate t \<and>
            (\<forall>j < length guidesStore. j \<noteq> index \<longrightarrow> store' ! j = guidesStore ! j))"
proof (cases "findIndex (\<lambda>g. get_prop g ''_id'' = JStr i) guidesStore")
  case None
  with assms show ?thesis by (simp add: updateGuide_def)
next
  case (Some index)
  then have len: "index < length guidesStore"
    by (simp add: findIndex_Some)
  define g where "g = set_prop ''updatedAt'' (JDate t)
                  (set_prop ''createdAt'' (get_prop (guidesStore ! index) ''createdAt'')
                    (set_prop ''_id'' (get_prop (guidesStore ! index) ''_id'')
                      (spread (spread [] (guidesStore ! index)) updates)))"
  from assms Some have store': "store' = guidesStore[index := g]" and d: "d = JObj g"
    by (simp_all add: updateGuide_def Let_def g_def)
  have gid: "get_prop g ''_id'' = get_prop (guidesStore ! index) ''_id''"
    by (simp add: g_def get_set_prop_same get_set_prop_other)
  have gcr: "get_prop g ''createdAt'' = get_prop (guidesStore ! index) ''createdAt''"
    by (simp add: g_def get_set_prop_same get_set_prop_other)
  have gup: "get_prop g ''updatedAt'' = JDate t"
    by (simp add: g_def get_set_prop_same)
  have keep: "\<forall>j < length guidesStore.
            get_prop (store' ! j) ''_id'' = get_prop (guidesStore ! j) ''_id'' \<and>
            get_prop (store' ! j) ''createdAt'' = get_prop (guidesStore ! j) ''createdAt''"
    using gid gcr len by (simp add: store' nth_list_update)
  have "d = JObj (store' ! index) \<and> get_prop (store' ! index) ''updatedAt'' = JDate t \<and>
        (\<forall>j < length guidesStore. j \<noteq> index \<longrightarrow> store' ! j = guidesStore ! j)"
    using len gup d by (simp add: store')
  with Some len keep show ?thesis
    by (auto simp: store')
qed

theorem C9_updateGuide_keeps_id_createdAt_witness:
  "updateGuide 9 [[(''_id'', JStr ''g1''), (''name'', JStr ''Asha''), (''createdAt'', JDate 5),
                   (''updatedAt'', JDate 5)]] ''g1''
     [(''_id'', JStr ''zz''), (''createdAt'', JDate 7), (''name'', JStr ''Bina'')] =
     ([[(''_id'', JStr ''g1''), (''name'', JStr ''Bina''), (''createdAt'', JDate 5),
        (''updatedAt'', JDate 9)]],
      SendSuccess (JObj [(''_id'', JStr ''g1''), (''name'', JStr ''Bina''),
                         (''createdAt'', JDate 5), (''updatedAt'', JDate 9)])
        (Some 200) (Some ''Guide profile updated successfully'')) \<and>
   length [[(''_id'', JStr ''g1''), (''name'', JStr ''Bina''), (''createdAt'', JDate 5),
            (''updatedAt'', JDate 9)]] =
     length [[(''_id'', JStr ''g1''), (''name'', JStr ''Asha''), (''createdAt'', JDate 5),
              (''updatedAt'', JDate 5)]] \<and>
   get_prop ([[(''_id'', JStr ''g1''), (''name'', JStr ''Bina''), (''createdAt'', JDate 5),
               (''updatedAt'', JDate 9)]] ! 0) ''_id'' =
   get_prop ([[(''_id'', JStr ''g1''), (''name'', JStr ''Asha''), (''createdAt'', JDate 5),
               (''updatedAt'', JDate 5)]] ! 0) ''_id'' \<and>
   get_prop ([[(''_id'', JStr ''g1''), (''name'', JStr ''Bina''), (''createdAt'', JDate 5),
               (''updatedAt'', JDate 9)]] ! 0) ''createdAt'' =
   get_prop ([[(''_id'', JStr ''g1''), (''name'', JStr ''Asha''), (''createdAt'', JDate 5),
               (''updatedAt'', JDate 5)]] ! 0) ''createdAt''"
  using C9_updateGuide_keeps_id_createdAt
    [of 9 "[[(''_id'', JStr ''g1''), (''name'', JStr ''Asha''), (''createdAt'', JDate 5),
             (''updatedAt'', JDate 5)]]" "''g1''"
        "[(''_id'', JStr ''zz''), (''createdAt'', JDate 7), (''name'', JStr ''Bina'')]"
        "[[(''_id'', JStr ''g1''), (''name'', JStr ''Bina''), (''createdAt'', JDate 5),
           (''updatedAt'', JDate 9)]]"
        "JObj [(''_id'', JStr ''g1''), (''name'', JStr ''Bina''),
               (''createdAt'', JDate 5), (''updatedAt'', JDate 9)]"
        "Some 200" "Some ''Guide profile updated successfully''"]
  by (simp add: updateGuide_def get_prop_def set_prop_def spread_def Let_def)

section \<open>Properties of the authentication handlers\<close>

subsection \<open>Lookups in a well-formed collection\<close>

lemma find_distinct:
  "distinct (map f xs) \<Longrightarrow> u \<in> set xs \<Longrightarrow> find (\<lambda>x. f x = f u) xs = Some u"
  by (induction xs) (auto simp: image_iff)

lemma findIndex_distinct:
  "distinct (map f xs) \<Longrightarrow> i < length xs \<Longrightarrow> findIndex (\<lambda>x. f x = f (xs ! i)) xs = Some i"
proof (induction xs arbitrary: i)
  case Nil
  then show ?case by simp
next
  case (Cons x xs)
  show ?case
  proof (cases i)
    case 0
    then show ?thesis by simp
  next
    case (Suc j)
    with Cons.prems have "j < length xs" and "f x \<noteq> f (xs ! j)"
      by (auto simp: image_iff)
    with Cons.IH [of j] Cons.prems Suc show ?thesis by simp
  qed
qed

lemma wf_users_find_email:
  "wf_users users \<Longrightarrow> u \<in> set users \<Longrightarrow> find (\<lambda>x. email x = email u) users = Some u"
  by (simp add: wf_users_def find_distinct)

lemma wf_users_find_id:
  "wf_users users \<Longrightarrow> u \<in> set users \<Longrightarrow> find (\<lambda>x. u_id x = u_id u) users = Some u"
  by (simp add: wf_users_def find_distinct)

lemma wf_users_member:
  "wf_users users \<Longrightarrow> u \<in> set users \<Longrightarrow>
     u_id u \<noteq> [] \<and> password u \<noteq> None \<and> \<not> isNew u \<and> \<not> password_modified u"
  by (auto simp: wf_users_def list_all_iff)

lemma findByEmail_none:
  "findFault ctx = None \<Longrightarrow> \<forall>x \<in> set users. email x \<noteq> e \<Longrightarrow>
     findByEmail ctx users e = Inr None"
  by (simp add: findByEmail_def find_None_iff)

lemma findByEmail_member:
  "findFault ctx = None \<Longrightarrow> wf_users users \<Longrightarrow> u \<in> set users \<Longrightarrow>
     findByEmail ctx users (email u) = Inr (Some u)"
  by (simp add: findByEmail_def wf_users_find_email)

lemma findById_member:
  "findFault ctx = None \<Longrightarrow> wf_users users \<Longrightarrow> u \<in> set users \<Longrightarrow>
     findById ctx users (u_id u) incl =
       Inr (Some (if incl then u else u\<lparr>password := None\<rparr>))"
  by (simp add: findById_def wf_users_find_id)

lemma getAuthenticatedUser_member:
  "findFault ctx = None \<Longrightarrow> wf_users users \<Longrightarrow> u \<in> set users \<Longrightarrow>
     getAuthenticatedUser ctx users (Some (u_id u)) incl =
       Inr (Inr (if incl then u else u\<lparr>password := None\<rparr>))"
  using wf_users_member [of users u]
  by (simp add: getAuthenticatedUser_def findById_member)

subsection \<open>Saving a loaded document\<close>

lemma list_update_as_map:
  assumes "distinct (map f xs)" and "i < length xs"
  shows "xs[i := g (xs ! i)] = map (\<lambda>x. if f x = f (xs ! i) then g x else x) xs"
proof (rule nth_equalityI)
  show "length (xs[i := g (xs ! i)]) =
          length (map (\<lambda>x. if f x = f (xs ! i) then g x else x) xs)"
    by simp
next
  fix j
  assume "j < length (xs[i := g (xs ! i)])"
  then have j: "j < length xs" by simp
  show "xs[i := g (xs ! i)] ! j = map (\<lambda>x. if f x = f (xs ! i) then g x else x) xs ! j"
  proof (cases "j = i")
    case True
    with assms(2) show ?thesis by simp
  next
    case False
    with assms j have "map f xs ! j \<noteq> map f xs ! i"
      by (simp add: nth_eq_iff_index_eq del: nth_map)
    with assms(2) j have "f (xs ! j) \<noteq> f (xs ! i)" by simp
    with False j assms(2) show ?thesis by simp
  qed
qed

lemma save_loaded:
  assumes "saveFault ctx = None" and "wf_users users" and "i < length users"
    and "u_id doc = u_id (users ! i)" and "\<not> isNew doc" and "\<not> password_modified doc"
  shows "save env ctx users doc =
           Inr (users[i := (users ! i)\<lparr>name := name doc, lastLogin := lastLogin doc,
                                        updatedAt := now ctx\<rparr>],
                doc\<lparr>updatedAt := now ctx, password_modified := False\<rparr>)"
proof -
  have "findIndex (\<lambda>x. u_id x = u_id (users ! i)) users = Some i"
    using assms(2,3) by (simp add: wf_users_def findIndex_distinct)
  then show ?thesis
    using assms(1,4,5,6) by (simp add: save_def Let_def)
qed

lemma login_succeeds:
  assumes "findFault ctx = None" and "saveFault ctx = None"
    and "wf_users users" and "u \<in> set users" and "isActive u"
    and "login_email body = email u"
    and "password u = Some h" and "compare env (login_password body) h"
  shows "login env ctx users body =
           (map (\<lambda>x. if u_id x = u_id u
                      then x\<lparr>lastLogin := Some (now ctx), updatedAt := now ctx\<rparr> else x) users,
            SendSuccess
              (UserAndToken (toUserResponse (u\<lparr>lastLogin := Some (now ctx)\<rparr>))
                 (generateToken env (u_id u) (role u)))
              (Some 200) (Some ''Login successful''))"
proof -
  from assms(4) obtain i where i: "i < length users" "users ! i = u"
    by (auto simp: in_set_conv_nth)
  have flags: "\<not> isNew u" "\<not> password_modified u"
    using wf_users_member [OF assms(3,4)] by simp_all
  have found: "findByEmail ctx users (login_email body) = Inr (Some u)"
    using assms(1,3,4,6) by (simp add: findByEmail_member)
  have "save env ctx users (u\<lparr>lastLogin := Some (now ctx)\<rparr>) =
          Inr (users[i := (users ! i)\<lparr>name := name (u\<lparr>lastLogin := Some (now ctx)\<rparr>),
                                       lastLogin := lastLogin (u\<lparr>lastLogin := Some (now ctx)\<rparr>),
                                       updatedAt := now ctx\<rparr>],
               u\<lparr>lastLogin := Some (now ctx)\<rparr>\<lparr>updatedAt := now ctx,
                                                  password_modified := False\<rparr>)"
    using assms(2,3) i flags by (intro save_loaded) simp_all
  moreover have "users[i := (users ! i)\<lparr>name := name (u\<lparr>lastLogin := Some (now ctx)\<rparr>),
                                       lastLogin := lastLogin (u\<lparr>lastLogin := Some (now ctx)\<rparr>),
                                       updatedAt := now ctx\<rparr>] =
                 users[i := (\<lambda>x. x\<lparr>lastLogin := Some (now ctx), updatedAt := now ctx\<rparr>)
                              (users ! i)]"
    using i by simp
  moreover have "users[i := (\<lambda>x. x\<lparr>lastLogin := Some (now ctx), updatedAt := now ctx\<rparr>)
                              (users ! i)] =
                 map (\<lambda>x. if u_id x = u_id (users ! i)
                      then x\<lparr>lastLogin := Some (now ctx), updatedAt := now ctx\<rparr> else x) users"
    using assms(3) i(1) by (intro list_update_as_map) (simp_all add: wf_users_def)
  ultimately have "save env ctx users (u\<lparr>lastLogin := Some (now ctx)\<rparr>) =
      Inr (map (\<lambda>x. if u_id x = u_id u
                      then x\<lparr>lastLogin := Some (now ctx), updatedAt := now ctx\<rparr> else x) users,
           u\<lparr>lastLogin := Some (now ctx)\<rparr>\<lparr>updatedAt := now ctx,
                                              password_modified := False\<rparr>)"
    using i(2) by simp
  then show ?thesis
    using found assms(5,7,8)
    by (simp add: login_def comparePassword_def toUserResponse_def)
qed

subsection \<open>Inserting a new document\<close>

lemma findIndex_exists: "\<exists>x \<in> set xs. p x \<Longrightarrow> \<exists>i. findIndex p xs = Some i"
  using findIndex_None [of p xs] by (cases "findIndex p xs") auto

lemma find_append_last:
  "\<forall>x \<in> set xs. \<not> p x \<Longrightarrow> p y \<Longrightarrow> find p (xs @ [y]) = Some y"
  by (induction xs) auto

lemma save_new:
  assumes "saveFault ctx = None" and "isNew doc" and "password_modified doc"
    and "validate env doc = []" and "\<forall>u \<in> set users. email u \<noteq> email doc"
  shows "save env ctx users doc =
           Inr (users @ [doc\<lparr>password := map_option (hash env) (password doc),
                              createdAt := now ctx, updatedAt := now ctx,
                              isNew := False, password_modified := False\<rparr>],
                doc\<lparr>password := map_option (hash env) (password doc),
                    createdAt := now ctx, updatedAt := now ctx,
                    isNew := False, password_modified := False\<rparr>)"
  using assms by (auto simp add: save_def Let_def)

lemma save_loaded_returns:
  assumes "saveFault ctx = None" and "\<not> isNew doc" and "\<not> password_modified doc"
    and "\<exists>x \<in> set users. u_id x = u_id doc"
  shows "\<exists>users'. save env ctx users doc =
           Inr (users', doc\<lparr>updatedAt := now ctx, password_modified := False\<rparr>)"
proof -
  from assms(4) obtain i where "findIndex (\<lambda>x. u_id x = u_id doc) users = Some i"
    using findIndex_exists [of users "\<lambda>x. u_id x = u_id doc"] by auto
  then show ?thesis
    using assms(1-3) by (simp add: save_def Let_def)
qed

lemma register_succeeds:
  assumes "findFault ctx = None" and "saveFault ctx = None"
    and "validate env (register_user ctx body) = []"
    and "\<forall>u \<in> set (users @ racing ctx). email u \<noteq> reg_email body"
  shows "register env ctx users body =
           (users @ racing ctx @ [registered_user env ctx body],
            SendSuccess
              (UserAndToken (toUserResponse (registered_user env ctx body))
                 (generateToken env (u_id (registered_user env ctx body))
                    (role (registered_user env ctx body))))
              (Some 201) (Some ''Registration successful''))"
proof -
  have pre: "findOne ctx users (reg_email body) = Inr None"
    using assms(1,4) by (simp add: findOne_def find_None_iff)
  have doc: "isNew (register_user ctx body)" "password_modified (register_user ctx body)"
    "email (register_user ctx body) = reg_email body"
    "password (register_user ctx body) = Some (reg_password body)"
    "createdAt (register_user ctx body) = now ctx"
    "updatedAt (register_user ctx body) = now ctx"
    by (simp_all add: register_user_def newUserModel_def)
  have saved: "(register_user ctx body)
                 \<lparr>password := map_option (hash env) (password (register_user ctx body)),
                  createdAt := now ctx, updatedAt := now ctx,
                  isNew := False, password_modified := False\<rparr> =
               registered_user env ctx body"
    by (simp add: registered_user_def register_user_def newUserModel_def)
  have "save env ctx (users @ racing ctx) (register_user ctx body) =
          Inr ((users @ racing ctx) @ [registered_user env ctx body],
               registered_user env ctx body)"
    unfolding saved [symmetric] using assms(2-4) doc by (intro save_new) simp_all
  with pre show ?thesis
    by (simp add: register_def Let_def)
qed

subsection \<open>What a profile update without a password change writes\<close>

lemma updateProfile_store:
  assumes "wf_users users"
    and "\<not> (truthy_str (newPassword body) \<and> truthy_str (currentPassword body))"
  shows "fst (updateProfile env ctx users userId body) = users \<or>
         (\<exists>i n. i < length users \<and>
            fst (updateProfile env ctx users userId body) =
              users[i := (users ! i)\<lparr>name := n, updatedAt := now ctx\<rparr>])"
proof (cases "getAuthenticatedUser ctx users userId True
                :: js_error + ('a auth_response + user_document)")
  case (Inl err)
  then show ?thesis by (simp add: updateProfile_def)
next
  case (Inr r)
  show ?thesis
  proof (cases r)
    case (Inl sent)
    with Inr show ?thesis by (simp add: updateProfile_def)
  next
    case loaded: (Inr loaded)
    with Inr have "\<exists>i. userId = Some i \<and> findById ctx users i True = Inr (Some loaded)"
      by (auto simp: getAuthenticatedUser_def split: option.splits if_splits sum.splits)
    then have "loaded \<in> set users"
      by (auto simp: findById_def find_Some_iff split: option.splits)
    then obtain i where i: "i < length users" "users ! i = loaded"
      by (auto simp: in_set_conv_nth)
    with assms(1) have flags: "\<not> isNew loaded" "\<not> password_modified loaded"
      using wf_users_member [of users loaded] by auto
    define user where "user = (case upd_name body of
                        None \<Rightarrow> loaded
                      | Some n \<Rightarrow> if n = [] then loaded else loaded\<lparr>name := n\<rparr>)"
    have user: "u_id user = u_id (users ! i)" "\<not> isNew user" "\<not> password_modified user"
      "lastLogin user = lastLogin (users ! i)"
      using i flags by (auto simp: user_def split: option.splits)
    have upd: "updateProfile env ctx users userId body = updateProfile_save env ctx users user"
      using Inr loaded assms(2) by (auto simp: updateProfile_def user_def Let_def)
    show ?thesis
    proof (cases "saveFault ctx")
      case None
      have "save env ctx users user =
              Inr (users[i := (users ! i)\<lparr>name := name user, lastLogin := lastLogin user,
                                           updatedAt := now ctx\<rparr>],
                   user\<lparr>updatedAt := now ctx, password_modified := False\<rparr>)"
        using None assms(1) i(1) user(1-3) by (rule save_loaded)
      then have "fst (updateProfile env ctx users userId body) =
                   users[i := (users ! i)\<lparr>name := name user, updatedAt := now ctx\<rparr>]"
        using user(4) by (simp add: upd updateProfile_save_def)
      with i(1) show ?thesis by blast
    next
      case (Some err)
      then show ?thesis by (simp add: upd updateProfile_save_def save_def)
    qed
  qed
qed

lemma rename_keeps:
  assumes "i < length users"
  shows "map u_id (users[i := (users ! i)\<lparr>name := n, updatedAt := t\<rparr>]) = map u_id users"
    and "map email (users[i := (users ! i)\<lparr>name := n, updatedAt := t\<rparr>]) = map email users"
    and "map password (users[i := (users ! i)\<lparr>name := n, updatedAt := t\<rparr>]) =
           map password users"
  using assms by (simp_all add: map_update list_update_same_conv)

lemma wf_users_rename:
  assumes "wf_users users" and "i < length users"
  shows "wf_users (users[i := (users ! i)\<lparr>name := n, updatedAt := t\<rparr>])"
proof -
  have "list_all (\<lambda>u. u_id u \<noteq> [] \<and> password u \<noteq> None \<and> \<not> isNew u \<and> \<not> password_modified u)
          (users[i := (users ! i)\<lparr>name := n, updatedAt := t\<rparr>])"
    using assms by (auto simp: wf_users_def list_all_length nth_list_update)
  with assms show ?thesis
    by (simp add: wf_users_def rename_keeps)
qed

subsection \<open>The claims\<close>

text \<open>
  C1: a login for an email no stored user has and a login for a stored, active user
  with a password that does not match the stored hash get the same response: status 401
  with the message \<^verbatim>\<open>Invalid credentials\<close> and no further detail.
\<close>

theorem C1_login_failures_identical:
  assumes "findFault ctx = None" and "findFault ctx' = None"
    and "\<forall>x \<in> set users. email x \<noteq> login_email body"
    and "wf_users users'" and "u \<in> set users'" and "isActive u"
    and "login_email body' = email u"
    and "password u = Some h" and "\<not> compare env (login_password body') h"
  shows "snd (login env ctx users body) = SendError ''Invalid credentials'' 401 None \<and>
         snd (login env ctx' users' body') = snd (login env ctx users body)"
proof -
  have absent: "login env ctx users body = (users, SendError ''Invalid credentials'' 401 None)"
    using assms(1,3) by (simp add: login_def findByEmail_none)
  have "findByEmail ctx' users' (login_email body') = Inr (Some u)"
    using assms(2,4,5,7) by (simp add: findByEmail_member)
  then have "login env ctx' users' body' =
               (users', SendError ''Invalid credentials'' 401 None)"
    using assms(6,8,9) by (simp add: login_def comparePassword_def)
  with absent show ?thesis by simp
qed

theorem C1_login_failures_identical_witness:
  "snd (login demo_env demo_ctx [alice]
          \<lparr>login_email = ''nobody@b.com'', login_password = ''Passw0rd!''\<rparr>) =
     SendError ''Invalid credentials'' 401 None \<and>
   snd (login demo_env demo_ctx [alice]
          \<lparr>login_email = ''a@b.com'', login_password = ''wrong''\<rparr>) =
     snd (login demo_env demo_ctx [alice]
            \<lparr>login_email = ''nobody@b.com'', login_password = ''Passw0rd!''\<rparr>)"
  using C1_login_failures_identical
    [where env = demo_env and ctx = demo_ctx and ctx' = demo_ctx and users = "[alice]"
       and users' = "[alice]" and u = alice and h = "''hash:Passw0rd!''"
       and body = "\<lparr>login_email = ''nobody@b.com'', login_password = ''Passw0rd!''\<rparr>"
       and body' = "\<lparr>login_email = ''a@b.com'', login_password = ''wrong''\<rparr>"]
  by (simp add: demo_env_def demo_ctx_def alice_def wf_users_def)

text \<open>
  C2: a registration with the email of a stored user fails with status 409 and the
  message \<^verbatim>\<open>Email already registered\<close>, and inserts nothing: when the pre-check query
  finds the user, and also when the pre-check finds nobody but another request has
  inserted the email by the time of the insert, so that the store raises its
  duplicate-key error.
\<close>

theorem C2_register_duplicate_email:
  assumes "findFault ctx = None"
  shows "((\<exists>u \<in> set users. email u = reg_email body) \<longrightarrow>
            register env ctx users body =
              (users, SendError ''Email already registered'' 409 None)) \<and>
         ((\<forall>u \<in> set users. email u \<noteq> reg_email body) \<and>
          (\<exists>u \<in> set (racing ctx). email u = reg_email body) \<and>
          saveFault ctx = None \<and> validate env (register_user ctx body) = [] \<longrightarrow>
            register env ctx users body =
              (users @ racing ctx, SendError ''Email already registered'' 409 None))"
proof (intro conjI impI)
  assume "\<exists>u \<in> set users. email u = reg_email body"
  then have "find (\<lambda>u. email u = reg_email body) users \<noteq> None"
    by (auto simp: find_None_iff)
  then obtain x where "find (\<lambda>u. email u = reg_email body) users = Some x"
    by auto
  then show "register env ctx users body =
               (users, SendError ''Email already registered'' 409 None)"
    using assms by (simp add: register_def findOne_def)
next
  assume race: "(\<forall>u \<in> set users. email u \<noteq> reg_email body) \<and>
          (\<exists>u \<in> set (racing ctx). email u = reg_email body) \<and>
          saveFault ctx = None \<and> validate env (register_user ctx body) = []"
  then have pre: "findOne ctx users (reg_email body) = Inr None"
    using assms by (simp add: findOne_def find_None_iff)
  have doc: "isNew (register_user ctx body)" "email (register_user ctx body) = reg_email body"
    by (simp_all add: register_user_def newUserModel_def)
  have "save env ctx (users @ racing ctx) (register_user ctx body) = Inl duplicateKeyError"
    using race doc by (auto simp add: save_def Let_def)
  moreover have "register_catch duplicateKeyError =
                   (SendError ''Email already registered'' 409 None :: 'a auth_response)"
    by (simp add: register_catch_def duplicateKeyError_def)
  ultimately show "register env ctx users body =
               (users @ racing ctx, SendError ''Email already registered'' 409 None)"
    using pre by (simp add: register_def Let_def)
qed

theorem C2_register_duplicate_email_witness:
  "register demo_env demo_ctx [alice]
     \<lparr>reg_email = ''a@b.com'', reg_password = ''Passw0rd!'', reg_name = ''A'',
      reg_role = None\<rparr> =
     ([alice], SendError ''Email already registered'' 409 None) \<and>
   register demo_env (demo_ctx\<lparr>racing := [alice]\<rparr>) []
     \<lparr>reg_email = ''a@b.com'', reg_password = ''Passw0rd!'', reg_name = ''A'',
      reg_role = None\<rparr> =
     ([] @ racing (demo_ctx\<lparr>racing := [alice]\<rparr>),
      SendError ''Email already registered'' 409 None)"
  using C2_register_duplicate_email
    [where env = demo_env and ctx = demo_ctx and users = "[alice]"
       and body = "\<lparr>reg_email = ''a@b.com'', reg_password = ''Passw0rd!'',
                      reg_name = ''A'', reg_role = None\<rparr>"]
    C2_register_duplicate_email
    [where env = demo_env and ctx = "demo_ctx\<lparr>racing := [alice]\<rparr>" and users = "[]"
       and body = "\<lparr>reg_email = ''a@b.com'', reg_password = ''Passw0rd!'',
                      reg_name = ''A'', reg_role = None\<rparr>"]
  by (simp add: demo_env_def demo_ctx_def alice_def)




text \<open>
  C6: for a stored user whose active flag is false, a login with the user's email fails
  with status 403 whatever the password, and \<^verbatim>\<open>getProfile\<close> for the user's
  identifier fails with status 403 too.
\<close>

theorem C6_deactivated_login_and_profile:
  assumes "findFault ctx = None" and "wf_users users" and "u \<in> set users"
    and "\<not> isActive u" and "login_email body = email u"
  shows "login env ctx users body = (users, SendError ''Account is deactivated'' 403 None) \<and>
         getProfile ctx users (Some (u_id u)) = SendError ''Account is deactivated'' 403 None"
proof -
  have "findByEmail ctx users (login_email body) = Inr (Some u)"
    using assms by (simp add: findByEmail_member)
  then have l: "login env ctx users body =
                  (users, SendError ''Account is deactivated'' 403 None)"
    using assms(4) by (simp add: login_def)
  have "getProfile ctx users (Some (u_id u)) = SendError ''Account is deactivated'' 403 None"
    using assms by (simp add: getProfile_def getAuthenticatedUser_member)
  with l show ?thesis by simp
qed

theorem C6_deactivated_login_and_profile_witness:
  "login demo_env demo_ctx [alice, bob]
     \<lparr>login_email = ''bob@b.com'', login_password = ''hunter22''\<rparr> =
     ([alice, bob], SendError ''Account is deactivated'' 403 None) \<and>
   getProfile demo_ctx [alice, bob] (Some ''u2'') =
     (SendError ''Account is deactivated'' 403 None :: (string \<times> string) auth_response)"
  using C6_deactivated_login_and_profile
    [where env = demo_env and ctx = demo_ctx and users = "[alice, bob]" and u = bob
       and body = "\<lparr>login_email = ''bob@b.com'', login_password = ''hunter22''\<rparr>",
     where ?'b = "string \<times> string"]
  by (simp add: demo_ctx_def alice_def bob_def wf_users_def)

text \<open>
  C7, as the code has it: for a stored, active user and the matching password,
  \<^verbatim>\<open>login\<close> sets the last login and saves the document inside its \<^verbatim>\<open>try\<close> block.
  When the save succeeds the response is status 200 with the sanitized user, the last
  login set, and a token for the user's identifier and role. When the save throws, the
  response is status 500 with the message \<^verbatim>\<open>Login failed\<close> and the collection is as
  it was.
\<close>

theorem C7_login_success_depends_on_save:
  assumes "findFault ctx = None"
    and "wf_users users" and "u \<in> set users" and "isActive u"
    and "login_email body = email u"
    and "password u = Some h" and "compare env (login_password body) h"
  shows "(saveFault ctx = None \<longrightarrow>
            login env ctx users body =
              (map (\<lambda>x. if u_id x = u_id u
                         then x\<lparr>lastLogin := Some (now ctx), updatedAt := now ctx\<rparr>
                         else x) users,
               SendSuccess
                 (UserAndToken (toUserResponse (u\<lparr>lastLogin := Some (now ctx)\<rparr>))
                    (generateToken env (u_id u) (role u)))
                 (Some 200) (Some ''Login successful''))) \<and>
         (saveFault ctx \<noteq> None \<longrightarrow>
            login env ctx users body = (users, SendError ''Login failed'' 500 None))"
proof (intro conjI impI)
  assume sf: "saveFault ctx = None"
  show "login env ctx users body =
              (map (\<lambda>x. if u_id x = u_id u
                         then x\<lparr>lastLogin := Some (now ctx), updatedAt := now ctx\<rparr>
                         else x) users,
               SendSuccess
                 (UserAndToken (toUserResponse (u\<lparr>lastLogin := Some (now ctx)\<rparr>))
                    (generateToken env (u_id u) (role u)))
                 (Some 200) (Some ''Login successful''))"
    by (rule login_succeeds [OF assms(1) sf assms(2-7)])
next
  assume "saveFault ctx \<noteq> None"
  then obtain err where "saveFault ctx = Some err" by auto
  then have "save env ctx users (u\<lparr>lastLogin := Some (now ctx)\<rparr>) = Inl err"
    by (simp add: save_def)
  moreover have "findByEmail ctx users (login_email body) = Inr (Some u)"
    using assms(1,2,3,5) by (simp add: findByEmail_member)
  ultimately show "login env ctx users body = (users, SendError ''Login failed'' 500 None)"
    using assms(4,6,7) by (simp add: login_def comparePassword_def)
qed

theorem C7_login_success_depends_on_save_witness:
  "login demo_env demo_ctx [alice, bob]
     \<lparr>login_email = ''a@b.com'', login_password = ''Passw0rd!''\<rparr> =
     ([alice\<lparr>lastLogin := Some 1700000000000, updatedAt := 1700000000000\<rparr>, bob],
      SendSuccess
        (UserAndToken (toUserResponse (alice\<lparr>lastLogin := Some 1700000000000\<rparr>))
           (''u1'', ''customer''))
        (Some 200) (Some ''Login successful'')) \<and>
   login demo_env failing_save_ctx [alice, bob]
     \<lparr>login_email = ''a@b.com'', login_password = ''Passw0rd!''\<rparr> =
     ([alice, bob], SendError ''Login failed'' 500 None)"
  using C7_login_success_depends_on_save
    [where env = demo_env and ctx = demo_ctx and users = "[alice, bob]" and u = alice
       and h = "''hash:Passw0rd!''"
       and body = "\<lparr>login_email = ''a@b.com'', login_password = ''Passw0rd!''\<rparr>"]
    C7_login_success_depends_on_save
    [where env = demo_env and ctx = failing_save_ctx and users = "[alice, bob]" and u = alice
       and h = "''hash:Passw0rd!''"
       and body = "\<lparr>login_email = ''a@b.com'', login_password = ''Passw0rd!''\<rparr>"]
  by (simp add: demo_env_def demo_ctx_def failing_save_ctx_def alice_def bob_def wf_users_def)

text \<open>
  C7, as the claim has it, fails: the user is stored and active and the password matches,
  the save of the last login throws, and \<^verbatim>\<open>login\<close> answers with status 500.
\<close>

theorem C7_login_fails_when_save_fails:
  "findByEmail failing_save_ctx [alice] ''a@b.com'' = Inr (Some alice) \<and>
   isActive alice \<and>
   comparePassword demo_env alice ''Passw0rd!'' = Inr True \<and>
   saveFault failing_save_ctx = Some networkError \<and>
   login demo_env failing_save_ctx [alice]
     \<lparr>login_email = ''a@b.com'', login_password = ''Passw0rd!''\<rparr> =
     ([alice], SendError ''Login failed'' 500 None)"
  by (simp add: login_def findByEmail_def comparePassword_def save_def demo_env_def
      failing_save_ctx_def alice_def)

text \<open>
  C3: for a registration the schema accepts, with an email no stored user has, and with
  the store working, \<^verbatim>\<open>register\<close> stores the user and answers with status 201, and a
  \<^verbatim>\<open>login\<close> with the same email and password afterwards answers with status 200, the
  sanitized user and a token that the issuer verifies to the identifier and role of the
  user \<^verbatim>\<open>register\<close> created. The hasher verifies a password against its own hash, and
  the issuer verifies the tokens it issues.
\<close>

theorem C3_register_then_login:
  assumes "findFault ctx = None" and "saveFault ctx = None"
    and "findFault ctx' = None" and "saveFault ctx' = None"
    and "validate env (register_user ctx body) = []"
    and "\<forall>u \<in> set (users @ racing ctx). email u \<noteq> reg_email body"
    and "\<forall>p. compare env p (hash env p)"
    and "\<forall>i r. verifyToken env (generateToken env i r) = Some (i, r)"
  shows "let created = registered_user env ctx body;
             token = generateToken env (u_id created) (role created)
         in u_id created = newId ctx \<and>
            register env ctx users body =
              (users @ racing ctx @ [created],
               SendSuccess (UserAndToken (toUserResponse created) token)
                 (Some 201) (Some ''Registration successful'')) \<and>
            snd (login env ctx' (fst (register env ctx users body))
                   \<lparr>login_email = reg_email body, login_password = reg_password body\<rparr>) =
              SendSuccess
                (UserAndToken (toUserResponse (created\<lparr>lastLogin := Some (now ctx')\<rparr>)) token)
                (Some 200) (Some ''Login successful'') \<and>
            verifyToken env token = Some (u_id created, role created)"
proof -
  define created where "created = registered_user env ctx body"
  define token where "token = generateToken env (u_id created) (role created)"
  have reg: "register env ctx users body =
              (users @ racing ctx @ [created],
               SendSuccess (UserAndToken (toUserResponse created) token)
                 (Some 201) (Some ''Registration successful''))"
    unfolding created_def token_def using assms(1,2,5,6) by (rule register_succeeds)
  have fields: "u_id created = newId ctx" "email created = reg_email body"
    "password created = Some (hash env (reg_password body))" "isActive created"
    "\<not> isNew created" "\<not> password_modified created"
    by (simp_all add: created_def registered_user_def register_user_def newUserModel_def)
  have "find (\<lambda>u. email u = reg_email body) ((users @ racing ctx) @ [created]) = Some created"
    using assms(6) fields(2) by (intro find_append_last) auto
  then have found: "findByEmail ctx' (users @ racing ctx @ [created]) (reg_email body) =
                      Inr (Some created)"
    using assms(3) by (simp add: findByEmail_def)
  have cmp: "comparePassword env created (reg_password body) = Inr True"
    using assms(7) fields(3) by (simp add: comparePassword_def)
  obtain users2 where
    "save env ctx' (users @ racing ctx @ [created]) (created\<lparr>lastLogin := Some (now ctx')\<rparr>) =
       Inr (users2, created\<lparr>lastLogin := Some (now ctx')\<rparr>
                      \<lparr>updatedAt := now ctx', password_modified := False\<rparr>)"
    using save_loaded_returns
      [of ctx' "created\<lparr>lastLogin := Some (now ctx')\<rparr>" "users @ racing ctx @ [created]" env]
      assms(4) fields(5,6)
    by auto
  with found cmp fields(4) have
    "login env ctx' (users @ racing ctx @ [created])
       \<lparr>login_email = reg_email body, login_password = reg_password body\<rparr> =
       (users2,
        SendSuccess
          (UserAndToken (toUserResponse (created\<lparr>lastLogin := Some (now ctx')\<rparr>)) token)
          (Some 200) (Some ''Login successful''))"
    by (simp add: login_def token_def toUserResponse_def)
  with reg have log:
    "snd (login env ctx' (fst (register env ctx users body))
            \<lparr>login_email = reg_email body, login_password = reg_password body\<rparr>) =
       SendSuccess
         (UserAndToken (toUserResponse (created\<lparr>lastLogin := Some (now ctx')\<rparr>)) token)
         (Some 200) (Some ''Login successful'')"
    by simp
  have tok: "verifyToken env token = Some (u_id created, role created)"
    using assms(8) by (simp add: token_def)
  show ?thesis
    unfolding Let_def created_def [symmetric] token_def [symmetric]
    by (intro conjI fields(1) reg log tok)
qed

theorem C3_register_then_login_witness:
  "let created = registered_user demo_env demo_ctx
                   \<lparr>reg_email = ''c@d.com'', reg_password = ''S3cretPass'',
                    reg_name = ''Chitra'', reg_role = None\<rparr>;
       token = generateToken demo_env (u_id created) (role created)
   in u_id created = newId demo_ctx \<and>
      register demo_env demo_ctx [alice, bob]
        \<lparr>reg_email = ''c@d.com'', reg_password = ''S3cretPass'',
         reg_name = ''Chitra'', reg_role = None\<rparr> =
        ([alice, bob] @ racing demo_ctx @ [created],
         SendSuccess (UserAndToken (toUserResponse created) token)
           (Some 201) (Some ''Registration successful'')) \<and>
      snd (login demo_env (demo_ctx\<lparr>now := 1700000000999\<rparr>)
             (fst (register demo_env demo_ctx [alice, bob]
                     \<lparr>reg_email = ''c@d.com'', reg_password = ''S3cretPass'',
                      reg_name = ''Chitra'', reg_role = None\<rparr>))
             \<lparr>login_email = ''c@d.com'', login_password = ''S3cretPass''\<rparr>) =
        SendSuccess
          (UserAndToken
             (toUserResponse
                (created\<lparr>lastLogin := Some (now (demo_ctx\<lparr>now := 1700000000999\<rparr>))\<rparr>))
             token)
          (Some 200) (Some ''Login successful'') \<and>
      verifyToken demo_env token = Some (u_id created, role created)"
  using C3_register_then_login
    [where env = demo_env and ctx = demo_ctx and ctx' = "demo_ctx\<lparr>now := 1700000000999\<rparr>"
       and users = "[alice, bob]"
       and body = "\<lparr>reg_email = ''c@d.com'', reg_password = ''S3cretPass'',
                      reg_name = ''Chitra'', reg_role = None\<rparr>"]
  by (simp add: demo_env_def demo_ctx_def alice_def bob_def)

text \<open>
  C4: an \<^verbatim>\<open>updateProfile\<close> request with exactly one of the current and the new
  password leaves the stored hash of every user as it was, and every active user can
  still log in with a password that matched the stored hash before, as long as the
  store works during that login.
\<close>

theorem C4_one_password_field_is_noop:
  assumes "wf_users users"
    and "truthy_str (currentPassword body) \<noteq> truthy_str (newPassword body)"
  shows "map (\<lambda>u. (u_id u, password u)) (fst (updateProfile env ctx users userId body)) =
           map (\<lambda>u. (u_id u, password u)) users \<and>
         (\<forall>u \<in> set users. \<forall>p h.
            findFault ctx' = None \<and> saveFault ctx' = None \<and>
            isActive u \<and> password u = Some h \<and> compare env p h \<longrightarrow>
            status_of (snd (login env ctx' (fst (updateProfile env ctx users userId body))
                              \<lparr>login_email = email u, login_password = p\<rparr>)) = Some 200)"
proof -
  define users' where "users' = fst (updateProfile env ctx users userId body)"
  have one: "\<not> (truthy_str (newPassword body) \<and> truthy_str (currentPassword body))"
    using assms(2) by auto
  have shape: "users' = users \<or>
         (\<exists>i n. i < length users \<and>
            users' = users[i := (users ! i)\<lparr>name := n, updatedAt := now ctx\<rparr>])"
    unfolding users'_def using assms(1) one by (rule updateProfile_store)
  have wf': "wf_users users'"
    using shape assms(1) by (auto simp: wf_users_rename)
  have ids: "map u_id users' = map u_id users"
    and hashes: "map password users' = map password users"
    using shape by (auto simp: rename_keeps)
  have len: "length users' = length users"
    using ids by (metis length_map)
  have frame: "map (\<lambda>u. (u_id u, password u)) users' = map (\<lambda>u. (u_id u, password u)) users"
  proof (rule nth_equalityI)
    show "length (map (\<lambda>u. (u_id u, password u)) users') =
            length (map (\<lambda>u. (u_id u, password u)) users)"
      using len by simp
  next
    fix j
    assume "j < length (map (\<lambda>u. (u_id u, password u)) users')"
    then have j: "j < length users" "j < length users'"
      using len by simp_all
    have "map u_id users' ! j = map u_id users ! j"
      and "map password users' ! j = map password users ! j"
      using ids hashes by simp_all
    with j show "map (\<lambda>u. (u_id u, password u)) users' ! j =
                   map (\<lambda>u. (u_id u, password u)) users ! j"
      by simp
  qed
  have logins: "status_of (snd (login env ctx' users'
                                   \<lparr>login_email = email u, login_password = p\<rparr>)) = Some 200"
    if u: "u \<in> set users" and ok: "findFault ctx' = None" "saveFault ctx' = None"
      and act: "isActive u" and pw: "password u = Some h" and cmp: "compare env p h"
    for u p h
  proof -
    from u obtain j where j: "j < length users" "users ! j = u"
      by (auto simp: in_set_conv_nth)
    define v where "v = users' ! j"
    have v_in: "v \<in> set users'"
      using j(1) len by (simp add: v_def)
    have same: "email v = email u \<and> isActive v = isActive u \<and> password v = password u"
      using shape
    proof
      assume "users' = users"
      with j show ?thesis by (simp add: v_def)
    next
      assume "\<exists>i n. i < length users \<and>
                users' = users[i := (users ! i)\<lparr>name := n, updatedAt := now ctx\<rparr>]"
      then obtain i n where "i < length users"
        and "users' = users[i := (users ! i)\<lparr>name := n, updatedAt := now ctx\<rparr>]"
        by blast
      with j show ?thesis
        by (cases "i = j") (simp_all add: v_def)
    qed
    have "login env ctx' users' \<lparr>login_email = email u, login_password = p\<rparr> =
            (map (\<lambda>x. if u_id x = u_id v
                       then x\<lparr>lastLogin := Some (now ctx'), updatedAt := now ctx'\<rparr>
                       else x) users',
             SendSuccess
               (UserAndToken (toUserResponse (v\<lparr>lastLogin := Some (now ctx')\<rparr>))
                  (generateToken env (u_id v) (role v)))
               (Some 200) (Some ''Login successful''))"
      using ok wf' v_in same act pw cmp
      by (intro login_succeeds [where h = h]) simp_all
    then show ?thesis by simp
  qed
  show ?thesis
    unfolding users'_def [symmetric] using frame logins by blast
qed

theorem C4_one_password_field_is_noop_witness:
  "map (\<lambda>u. (u_id u, password u))
     (fst (updateProfile demo_env demo_ctx [alice, bob] (Some ''u1'')
             \<lparr>upd_name = Some ''Alice'', currentPassword = None,
              newPassword = Some ''N3wPassw0rd''\<rparr>)) =
     map (\<lambda>u. (u_id u, password u)) [alice, bob] \<and>
   status_of
     (snd (login demo_env demo_ctx
             (fst (updateProfile demo_env demo_ctx [alice, bob] (Some ''u1'')
                     \<lparr>upd_name = Some ''Alice'', currentPassword = None,
                      newPassword = Some ''N3wPassw0rd''\<rparr>))
             \<lparr>login_email = email alice, login_password = ''Passw0rd!''\<rparr>)) = Some 200"
  using C4_one_password_field_is_noop
    [where env = demo_env and ctx = demo_ctx and ctx' = demo_ctx and users = "[alice, bob]"
       and userId = "Some ''u1''"
       and body = "\<lparr>upd_name = Some ''Alice'', currentPassword = None,
                      newPassword = Some ''N3wPassw0rd''\<rparr>"]
  by (simp add: demo_env_def demo_ctx_def alice_def bob_def wf_users_def)

end
